theory Spec2Isabelle
  imports Main
begin

section \<open>Session lifecycle and role-gated routing of the bakery client\<close>

text \<open>
  The development embeds five source units of the client:
  \<^item> \<^verbatim>\<open>src/utils/auth.ts\<close> (\<^verbatim>\<open>authUtils\<close>: the token/user store over \<^verbatim>\<open>localStorage\<close>),
  \<^item> \<^verbatim>\<open>src/services/api.ts\<close> (\<^verbatim>\<open>ApiService\<close>: the axios instance with its two interceptors),
  \<^item> the auth hook (\<^verbatim>\<open>AuthProvider\<close>: \<^verbatim>\<open>initAuth\<close>, \<^verbatim>\<open>login\<close>, \<^verbatim>\<open>register\<close>, \<^verbatim>\<open>logout\<close>),
  \<^item> \<^verbatim>\<open>src/components/ProtectedRoute.tsx\<close> (the route guard),
  \<^item> the register view (\<^verbatim>\<open>RegisterPage\<close>: its submit control and \<^verbatim>\<open>onSubmit\<close>).

  Effects are explicit: every operation takes the \<open>world\<close> (browser storage, location,
  the axios default header, the requests that left the client, the toasts shown, and the
  two React state cells of \<^verbatim>\<open>AuthProvider\<close>) and returns the new one. The backend is
  opaque, so what it answers to a call is an input of the operation that makes the call.
  A rejected promise or a thrown exception is the \<open>Inl\<close> of a sum.
\<close>

subsection \<open>JavaScript values\<close>

text \<open>
  The values that \<^verbatim>\<open>JSON.parse\<close> can return, which are also the values the \<^verbatim>\<open>user\<close>
  state cell can hold at run time (TypeScript's \<^verbatim>\<open>User | null\<close> is not checked there).
  \<open>JNum m e\<close> is the number \<open>m * 10 ^ e\<close>; \<open>JNull\<close> is \<^verbatim>\<open>null\<close>.
\<close>

datatype json =
    JNull
  | JBool bool
  | JNum int int
  | JStr string
  | JArr "json list"
  | JObj "(string \<times> json) list"

text \<open>\<^verbatim>\<open>!!v\<close>: JavaScript's truthiness.\<close>

fun truthy :: "json \<Rightarrow> bool" where
  "truthy JNull = False"
| "truthy (JBool b) = b"
| "truthy (JNum m e) = (m \<noteq> 0)"
| "truthy (JStr s) = (s \<noteq> [])"
| "truthy (JArr xs) = True"
| "truthy (JObj ms) = True"

text \<open>
  \<^verbatim>\<open>v?.k\<close> for a data property \<open>k\<close> of a parsed or received value: \<open>None\<close> is
  \<^verbatim>\<open>undefined\<close>. Only objects carry such properties; on \<^verbatim>\<open>null\<close> the optional chain
  yields \<^verbatim>\<open>undefined\<close>.
\<close>

fun get_prop :: "json \<Rightarrow> string \<Rightarrow> json option" where
  "get_prop (JObj ms) k = map_of ms k"
| "get_prop v k = None"

text \<open>
  Truthiness of a \<^verbatim>\<open>string | null\<close>, as in \<^verbatim>\<open>if (token)\<close>: \<^verbatim>\<open>null\<close> and the empty
  string are falsy.
\<close>

fun truthy_str :: "string option \<Rightarrow> bool" where
  "truthy_str None = False"
| "truthy_str (Some s) = (s \<noteq> [])"

subsection \<open>Types of \<^verbatim>\<open>src/types/index.ts\<close>\<close>

datatype UserRole = Customer | Baker | Delivery_person | Admin

text \<open>The string each member of the union type \<^verbatim>\<open>UserRole\<close> is at run time.\<close>

fun role_str :: "UserRole \<Rightarrow> string" where
  "role_str Customer = ''customer''"
| "role_str Baker = ''baker''"
| "role_str Delivery_person = ''delivery_person''"
| "role_str Admin = ''admin''"

record AuthResponse =
  access_token :: string
  token_type :: string

record UserProfile =
  id_field :: int
  email :: string
  username :: string
  full_name :: string
  role :: UserRole
  is_active :: bool

text \<open>
  The object of a \<^verbatim>\<open>UserProfile\<close> with exactly the six declared members: the body of
  an answer of the current-user endpoint that has the declared shape and nothing more.
\<close>

definition UserProfile_json :: "UserProfile \<Rightarrow> json" where
  "UserProfile_json p =
     JObj [(''id'', JNum (id_field p) 0),
           (''email'', JStr (email p)),
           (''username'', JStr (username p)),
           (''full_name'', JStr (full_name p)),
           (''role'', JStr (role_str (role p))),
           (''is_active'', JBool (is_active p))]"

subsection \<open>Failures\<close>

text \<open>
  \<open>SyntaxError\<close> is what \<^verbatim>\<open>JSON.parse\<close> throws. \<open>AxiosError st d\<close> is a rejected request:
  \<open>st\<close> is \<^verbatim>\<open>error.response?.status\<close> (\<open>None\<close> when no response arrived) and \<open>d\<close> is
  \<^verbatim>\<open>error.response?.data?.detail\<close>.
\<close>

datatype exn = SyntaxError | AxiosError "nat option" "string option"

fun response_status :: "exn \<Rightarrow> nat option" where
  "response_status (AxiosError st d) = st"
| "response_status SyntaxError = None"

fun response_detail :: "exn \<Rightarrow> string option" where
  "response_detail (AxiosError st d) = d"
| "response_detail SyntaxError = None"

text \<open>\<^verbatim>\<open>error.response?.data?.detail || fallback\<close>\<close>

definition detail_or :: "exn \<Rightarrow> string \<Rightarrow> string" where
  "detail_or error fallback =
     (case response_detail error of
        None \<Rightarrow> fallback
      | Some d \<Rightarrow> if d \<noteq> [] then d else fallback)"

subsection \<open>The world\<close>

datatype toast = toast_success string | toast_error string

record request =
  http_method :: string
  url :: string
  Authorization :: "string option"

type_synonym storage = "string \<rightharpoonup> string"

record world =
  localStorage :: storage
  location_href :: string
  defaults_Authorization :: "string option"
  sent :: "request list"
  toasts :: "toast list"
  user :: json
  loading :: bool

subsection \<open>\<^verbatim>\<open>src/utils/auth.ts\<close>\<close>

definition TOKEN_KEY :: string where
  "TOKEN_KEY = ''token''"

definition USER_KEY :: string where
  "USER_KEY = ''user''"

definition setToken :: "string \<Rightarrow> storage \<Rightarrow> storage" where
  "setToken token ls = ls(TOKEN_KEY \<mapsto> token)"

definition getToken :: "storage \<Rightarrow> string option" where
  "getToken ls = ls TOKEN_KEY"

definition removeToken :: "storage \<Rightarrow> storage" where
  "removeToken ls = ls(TOKEN_KEY := None)"

text \<open>
  \<^verbatim>\<open>JSON.stringify\<close> and \<^verbatim>\<open>JSON.parse\<close> belong to the platform, not to the repository:
  the store operations take them as parameters. \<open>parse s = None\<close> means that
  \<^verbatim>\<open>JSON.parse(s)\<close> throws.
\<close>

definition setUser :: "(json \<Rightarrow> string) \<Rightarrow> json \<Rightarrow> storage \<Rightarrow> storage" where
  "setUser stringify usr ls = ls(USER_KEY \<mapsto> stringify usr)"

definition getUser :: "(string \<Rightarrow> json option) \<Rightarrow> storage \<Rightarrow> exn + json" where
  "getUser parse ls =
     (case ls USER_KEY of
        None \<Rightarrow> Inr JNull
      | Some userStr \<Rightarrow>
          if userStr \<noteq> [] then
            (case parse userStr of None \<Rightarrow> Inl SyntaxError | Some v \<Rightarrow> Inr v)
          else Inr JNull)"

definition removeUser :: "storage \<Rightarrow> storage" where
  "removeUser ls = ls(USER_KEY := None)"

text \<open>\<^verbatim>\<open>!!this.getToken() && !!this.getUser()\<close>: the right operand is not evaluated when the left is false.\<close>

definition authUtils_isAuthenticated :: "(string \<Rightarrow> json option) \<Rightarrow> storage \<Rightarrow> exn + bool" where
  "authUtils_isAuthenticated parse ls =
     (if truthy_str (getToken ls) then
        (case getUser parse ls of Inl e \<Rightarrow> Inl e | Inr usr \<Rightarrow> Inr (truthy usr))
      else Inr False)"

definition authUtils_hasRole :: "(string \<Rightarrow> json option) \<Rightarrow> storage \<Rightarrow> string \<Rightarrow> exn + bool" where
  "authUtils_hasRole parse ls r =
     (case getUser parse ls of
        Inl e \<Rightarrow> Inl e
      | Inr usr \<Rightarrow> Inr (get_prop usr ''role'' = Some (JStr r)))"

definition authUtils_logout :: "storage \<Rightarrow> storage" where
  "authUtils_logout ls = removeUser (removeToken ls)"

definition getAuthHeaders :: "storage \<Rightarrow> string option" where
  "getAuthHeaders ls =
     (case getToken ls of
        None \<Rightarrow> None
      | Some token \<Rightarrow> if token \<noteq> [] then Some (''Bearer '' @ token) else None)"

subsection \<open>\<^verbatim>\<open>src/services/api.ts\<close>\<close>

text \<open>The request interceptor: reads the key \<^verbatim>\<open>'token'\<close> of \<^verbatim>\<open>localStorage\<close>.\<close>

definition request_interceptor :: "storage \<Rightarrow> request \<Rightarrow> request" where
  "request_interceptor ls config =
     (case ls ''token'' of
        None \<Rightarrow> config
      | Some token \<Rightarrow>
          if token \<noteq> [] then config\<lparr>Authorization := Some (''Bearer '' @ token)\<rparr>
          else config)"

text \<open>
  The error handler of the response interceptor. It returns \<^verbatim>\<open>Promise.reject(error)\<close> in
  every case; the world it leaves is computed here.
\<close>

definition response_rejected :: "exn \<Rightarrow> world \<Rightarrow> world" where
  "response_rejected error w =
     (if response_status error = Some 401 then
        w\<lparr>localStorage := ((localStorage w)(''token'' := None))(''user'' := None),
          location_href := ''/login''\<rparr>
      else w)"

definition setAuthToken :: "string option \<Rightarrow> world \<Rightarrow> world" where
  "setAuthToken token w =
     (case token of
        None \<Rightarrow> w\<lparr>defaults_Authorization := None\<rparr>
      | Some t \<Rightarrow>
          if t \<noteq> [] then w\<lparr>defaults_Authorization := Some (''Bearer '' @ t)\<rparr>
          else w\<lparr>defaults_Authorization := None\<rparr>)"

text \<open>
  One call through the axios instance. axios merges the instance's default headers into
  the request, runs the request interceptor, and sends the request; the backend's answer
  \<open>reply\<close> is either data (a 2xx response) or the error axios rejects with, and a rejection
  passes through the response interceptor's error handler before it reaches the caller.
\<close>

definition axios_request :: "string \<Rightarrow> string \<Rightarrow> exn + 'a \<Rightarrow> world \<Rightarrow> (exn + 'a) \<times> world" where
  "axios_request m u reply w =
     (let config = request_interceptor (localStorage w)
                     \<lparr>http_method = m, url = u, Authorization = defaults_Authorization w\<rparr>;
          w1 = w\<lparr>sent := sent w @ [config]\<rparr>
      in case reply of
           Inr data \<Rightarrow> (Inr data, w1)
         | Inl error \<Rightarrow> (Inl error, response_rejected error w1))"

definition apiService_login :: "exn + AuthResponse \<Rightarrow> world \<Rightarrow> (exn + AuthResponse) \<times> world" where
  "apiService_login reply w = axios_request ''post'' ''/api/auth/login-form'' reply w"

definition apiService_register :: "exn + 'u \<Rightarrow> world \<Rightarrow> (exn + 'u) \<times> world" where
  "apiService_register reply w = axios_request ''post'' ''/api/auth/register'' reply w"

text \<open>
  \<^verbatim>\<open>getCurrentUser\<close> returns \<^verbatim>\<open>response.data\<close>. The type \<^verbatim>\<open>UserProfile\<close> is declared for
  it and nothing checks it: the data is whatever JSON value the backend sent.
\<close>

definition apiService_getCurrentUser :: "exn + json \<Rightarrow> world \<Rightarrow> (exn + json) \<times> world" where
  "apiService_getCurrentUser reply w = axios_request ''get'' ''/api/auth/me'' reply w"

subsection \<open>\<^verbatim>\<open>AuthProvider\<close>\<close>

text \<open>
  \<^verbatim>\<open>initAuth\<close>, the effect run on mount. \<^verbatim>\<open>authUtils.getUser()\<close> is called before the
  test and outside the \<^verbatim>\<open>try\<close>, so what it throws rejects \<^verbatim>\<open>initAuth\<close> at once.
\<close>

definition initAuth :: "(string \<Rightarrow> json option) \<Rightarrow> exn + json \<Rightarrow> world \<Rightarrow> (exn + unit) \<times> world" where
  "initAuth parse me_reply w =
     (let token = getToken (localStorage w)
      in case getUser parse (localStorage w) of
           Inl e \<Rightarrow> (Inl e, w)
         | Inr storedUser \<Rightarrow>
             if truthy_str token \<and> truthy storedUser then
               (case apiService_getCurrentUser me_reply w of
                  (Inr profile, w1) \<Rightarrow> (Inr (), w1\<lparr>user := storedUser, loading := False\<rparr>)
                | (Inl error, w1) \<Rightarrow>
                    (Inr (), w1\<lparr>localStorage := authUtils_logout (localStorage w1),
                                user := JNull, loading := False\<rparr>))
             else (Inr (), w\<lparr>loading := False\<rparr>))"

text \<open>
  \<^verbatim>\<open>login\<close>. The cast \<^verbatim>\<open>userProfile as User\<close> does nothing at run time: what the
  current-user endpoint answered is stored and exposed as it came.
\<close>

definition login ::
  "(json \<Rightarrow> string) \<Rightarrow> exn + AuthResponse \<Rightarrow> exn + json \<Rightarrow> world \<Rightarrow> (exn + unit) \<times> world" where
  "login stringify login_reply me_reply w =
     (case apiService_login login_reply (w\<lparr>loading := True\<rparr>) of
        (Inl error, w1) \<Rightarrow>
          (Inl error,
           w1\<lparr>toasts := toasts w1 @ [toast_error (detail_or error ''Login failed'')],
              loading := False\<rparr>)
      | (Inr response, w1) \<Rightarrow>
          (let w2 = w1\<lparr>localStorage := setToken (access_token response) (localStorage w1)\<rparr>;
               w3 = setAuthToken (Some (access_token response)) w2
           in case apiService_getCurrentUser me_reply w3 of
                (Inl error, w4) \<Rightarrow>
                  (Inl error,
                   w4\<lparr>toasts := toasts w4 @ [toast_error (detail_or error ''Login failed'')],
                      loading := False\<rparr>)
              | (Inr userProfile, w4) \<Rightarrow>
                  (Inr (),
                   w4\<lparr>localStorage :=
                        setUser stringify userProfile (localStorage w4),
                      user := userProfile,
                      toasts := toasts w4 @ [toast_success ''Login successful!''],
                      loading := False\<rparr>)))"

definition register :: "exn + 'u \<Rightarrow> world \<Rightarrow> (exn + unit) \<times> world" where
  "register reply w =
     (case apiService_register reply (w\<lparr>loading := True\<rparr>) of
        (Inl error, w1) \<Rightarrow>
          (Inl error,
           w1\<lparr>toasts := toasts w1 @ [toast_error (detail_or error ''Registration failed'')],
              loading := False\<rparr>)
      | (Inr newUser, w1) \<Rightarrow>
          (Inr (),
           w1\<lparr>toasts := toasts w1 @ [toast_success ''Registration successful! Please login.''],
              loading := False\<rparr>))"

definition logout :: "world \<Rightarrow> world" where
  "logout w =
     w\<lparr>localStorage := authUtils_logout (localStorage w),
       user := JNull,
       toasts := toasts w @ [toast_success ''Logged out successfully'']\<rparr>"

definition isAuthenticated :: "world \<Rightarrow> bool" where
  "isAuthenticated w = truthy (user w)"

definition hasRole :: "world \<Rightarrow> string \<Rightarrow> bool" where
  "hasRole w r = (get_prop (user w) ''role'' = Some (JStr r))"

subsection \<open>\<^verbatim>\<open>src/components/ProtectedRoute.tsx\<close>\<close>

text \<open>
  What the guard returns: the spinner, a \<^verbatim>\<open>Navigate\<close> element (its target, and the
  location it carries in \<^verbatim>\<open>state.from\<close> when it carries one), or its children.
\<close>

datatype 'c element = CircularProgress | Navigate string "string option" | Children 'c

text \<open>
  The guard reads \<^verbatim>\<open>user\<close>, \<^verbatim>\<open>loading\<close> and \<^verbatim>\<open>isAuthenticated\<close> from the context that
  \<^verbatim>\<open>AuthProvider\<close> provides. A declared \<^verbatim>\<open>requiredRole\<close> is one of four non-empty
  strings, so \<^verbatim>\<open>requiredRole && ...\<close> tests only that it is declared. The \<^verbatim>\<open>switch\<close>
  compares with \<^verbatim>\<open>===\<close>.
\<close>

definition ProtectedRoute :: "world \<Rightarrow> UserRole option \<Rightarrow> string \<Rightarrow> 'c \<Rightarrow> 'c element" where
  "ProtectedRoute w requiredRole location children =
     (if loading w then CircularProgress
      else if \<not> isAuthenticated w then Navigate ''/login'' (Some location)
      else
        (case requiredRole of
           None \<Rightarrow> Children children
         | Some r \<Rightarrow>
             if get_prop (user w) ''role'' \<noteq> Some (JStr (role_str r)) then
               (if get_prop (user w) ''role'' = Some (JStr ''admin'') then
                  Navigate ''/admin'' None
                else if get_prop (user w) ''role'' = Some (JStr ''baker'') then
                  Navigate ''/baker'' None
                else if get_prop (user w) ''role'' = Some (JStr ''delivery_person'') then
                  Navigate ''/delivery'' None
                else Navigate ''/'' None)
             else Children children))"

text \<open>
  The views of the route table in \<^verbatim>\<open>src/App.tsx\<close> that the guard's decision is stated
  with: the login view and the four home views.
\<close>

definition login_view :: string where
  "login_view = ''/login''"

definition default_home :: string where
  "default_home = ''/''"

definition baker_home :: string where
  "baker_home = ''/baker''"

definition delivery_home :: string where
  "delivery_home = ''/delivery''"

definition admin_home :: string where
  "admin_home = ''/admin''"

text \<open>
  The fixed role-home mapping in the spec's words (section 4.4, step 3): admin to the
  admin home, baker to the baker home, delivery\_person to the delivery home, anything
  else to the default home. Its argument is the role the current user carries, if any.
\<close>

definition role_home :: "json option \<Rightarrow> string" where
  "role_home r =
     (case r of
        Some (JStr s) \<Rightarrow>
          if s = ''admin'' then admin_home
          else if s = ''baker'' then baker_home
          else if s = ''delivery_person'' then delivery_home
          else default_home
      | _ \<Rightarrow> default_home)"

subsection \<open>The states a session can be in\<close>

text \<open>
  \<^verbatim>\<open>AuthProvider\<close> mounts with \<^verbatim>\<open>useState(null)\<close> and \<^verbatim>\<open>useState(true)\<close>, over whatever
  the browser holds. From there the state moves by \<^verbatim>\<open>initAuth\<close>, \<^verbatim>\<open>login\<close>, \<^verbatim>\<open>register\<close>
  and \<^verbatim>\<open>logout\<close>, under any answers of the backend. Two more moves cover what the route
  guard can see between the steps of an operation and besides them: an operation in
  flight has set \<^verbatim>\<open>loading\<close> and is waiting for the backend, and another tab or script
  has rewritten \<^verbatim>\<open>localStorage\<close>.

  \<open>bodies\<close> says which bodies the current-user endpoint may answer a login with; the
  validation call of \<^verbatim>\<open>initAuth\<close> discards its data, so its answers are not constrained.
\<close>

inductive reachable ::
  "(string \<Rightarrow> json option) \<Rightarrow> (json \<Rightarrow> string) \<Rightarrow> (json \<Rightarrow> bool) \<Rightarrow> world \<Rightarrow> bool"
  for parse :: "string \<Rightarrow> json option" and stringify :: "json \<Rightarrow> string"
    and bodies :: "json \<Rightarrow> bool"
where
  mount: "user w = JNull \<Longrightarrow> loading w \<Longrightarrow> reachable parse stringify bodies w"
| after_initAuth:
    "reachable parse stringify bodies w \<Longrightarrow> initAuth parse me_reply w = (res, w') \<Longrightarrow>
     reachable parse stringify bodies w'"
| after_login:
    "reachable parse stringify bodies w \<Longrightarrow>
     (\<forall>body. me_reply = Inr body \<longrightarrow> bodies body) \<Longrightarrow>
     login stringify login_reply me_reply w = (res, w') \<Longrightarrow>
     reachable parse stringify bodies w'"
| after_register:
    "reachable parse stringify bodies w \<Longrightarrow>
     register (reply :: exn + json) w = (res, w') \<Longrightarrow>
     reachable parse stringify bodies w'"
| after_logout:
    "reachable parse stringify bodies w \<Longrightarrow> reachable parse stringify bodies (logout w)"
| in_flight:
    "reachable parse stringify bodies w \<Longrightarrow>
     reachable parse stringify bodies (w\<lparr>loading := True\<rparr>)"
| storage_changed:
    "reachable parse stringify bodies w \<Longrightarrow>
     reachable parse stringify bodies (w\<lparr>localStorage := ls\<rparr>)"

text \<open>A backend that may answer with any body at all.\<close>

definition any_body :: "json \<Rightarrow> bool" where
  "any_body body = True"

subsection \<open>The register view\<close>

text \<open>
  \<^verbatim>\<open>RegisterPage\<close> is the only caller of \<^verbatim>\<open>register\<close>. Its submit button is rendered with
  \<^verbatim>\<open>disabled={loading}\<close>, so the form is not submitted while \<^verbatim>\<open>loading\<close> is true. Its
  \<^verbatim>\<open>onSubmit\<close> awaits \<^verbatim>\<open>register\<close> and then navigates to the login view; on a failure it
  only sets an error of the form, which is no part of the world.
\<close>

definition RegisterPage_submit :: "exn + 'u \<Rightarrow> world \<Rightarrow> world" where
  "RegisterPage_submit reply w =
     (if loading w then w
      else
        (case register reply w of
           (Inr newUser, w1) \<Rightarrow> w1\<lparr>location_href := ''/login''\<rparr>
         | (Inl error, w1) \<Rightarrow> w1))"

subsection \<open>A reference \<^verbatim>\<open>JSON.parse\<close> and \<^verbatim>\<open>JSON.stringify\<close>\<close>

text \<open>
  The general results below hold for every \<open>parse\<close> and \<open>stringify\<close>. Concrete instances
  need concrete functions: a parser of the JSON grammar (ECMA-404) and the matching
  serialiser. Numbers are kept exact as mantissa and decimal exponent; a string is its
  bytes, and a \<^verbatim>\<open>\u\<close> escape is stored as the UTF-8 bytes of its code unit. A repeated key
  keeps its place and takes the later value. They stand in for the platform's functions
  on the texts used below (the text \<^verbatim>\<open>{\<close> and the profile of Scenario C) and are not
  JavaScript's everywhere: numbers are not rounded to doubles nor printed with an
  exponent, and the members of an object stay in the order of the text.
\<close>

definition is_ws :: "char \<Rightarrow> bool" where
  "is_ws c = (c = CHR '' '' \<or> c = CHR 0x09 \<or> c = CHR 0x0A \<or> c = CHR 0x0D)"

definition skip_ws :: "string \<Rightarrow> string" where
  "skip_ws cs = dropWhile is_ws cs"

definition is_digit :: "char \<Rightarrow> bool" where
  "is_digit c = (48 \<le> (of_char c :: nat) \<and> (of_char c :: nat) \<le> 57)"

definition digit_val :: "char \<Rightarrow> nat" where
  "digit_val c = of_char c - 48"

definition digits_val :: "string \<Rightarrow> nat" where
  "digits_val ds = foldl (\<lambda>n d. 10 * n + digit_val d) 0 ds"

definition hex_val :: "char \<Rightarrow> nat option" where
  "hex_val c =
     (if is_digit c then Some (of_char c - 48)
      else if 97 \<le> (of_char c :: nat) \<and> (of_char c :: nat) \<le> 102 then Some (of_char c - 87)
      else if 65 \<le> (of_char c :: nat) \<and> (of_char c :: nat) \<le> 70 then Some (of_char c - 55)
      else None)"

definition utf8 :: "nat \<Rightarrow> string" where
  "utf8 n =
     (if n < 0x80 then [char_of n]
      else if n < 0x800 then [char_of (0xC0 + n div 64), char_of (0x80 + n mod 64)]
      else [char_of (0xE0 + n div 4096), char_of (0x80 + (n div 64) mod 64),
            char_of (0x80 + n mod 64)])"

fun parse_chars :: "string \<Rightarrow> string \<Rightarrow> (string \<times> string) option" where
  "parse_chars acc [] = None"
| "parse_chars acc (c # cs) =
     (if c = CHR 0x22 then Some (rev acc, cs)
      else if c = CHR 0x5C then
        (case cs of
           [] \<Rightarrow> None
         | e # r \<Rightarrow>
             if e = CHR 0x22 \<or> e = CHR 0x5C \<or> e = CHR ''/'' then parse_chars (e # acc) r
             else if e = CHR ''b'' then parse_chars (CHR 0x08 # acc) r
             else if e = CHR ''f'' then parse_chars (CHR 0x0C # acc) r
             else if e = CHR ''n'' then parse_chars (CHR 0x0A # acc) r
             else if e = CHR ''r'' then parse_chars (CHR 0x0D # acc) r
             else if e = CHR ''t'' then parse_chars (CHR 0x09 # acc) r
             else if e = CHR ''u'' then
               (case r of
                  h1 # h2 # h3 # h4 # r' \<Rightarrow>
                    (case (hex_val h1, hex_val h2, hex_val h3, hex_val h4) of
                       (Some a, Some b, Some c', Some d) \<Rightarrow>
                         parse_chars (rev (utf8 (4096 * a + 256 * b + 16 * c' + d)) @ acc) r'
                     | _ \<Rightarrow> None)
                | _ \<Rightarrow> None)
             else None)
      else if (of_char c :: nat) < 32 then None
      else parse_chars (c # acc) cs)"

definition parse_frac :: "string \<Rightarrow> (string \<times> string) option" where
  "parse_frac cs =
     (case cs of
        [] \<Rightarrow> Some ([], cs)
      | c # r \<Rightarrow>
          if c = CHR ''.'' then
            (if takeWhile is_digit r = [] then None
             else Some (takeWhile is_digit r, dropWhile is_digit r))
          else Some ([], cs))"

definition parse_exp :: "string \<Rightarrow> (int \<times> string) option" where
  "parse_exp cs =
     (case cs of
        [] \<Rightarrow> Some (0, cs)
      | c # r \<Rightarrow>
          if c = CHR ''e'' \<or> c = CHR ''E'' then
            (let eneg = (r \<noteq> [] \<and> hd r = CHR ''-'');
                 r1 = (if r \<noteq> [] \<and> (hd r = CHR ''-'' \<or> hd r = CHR ''+'') then tl r else r)
             in if takeWhile is_digit r1 = [] then None
                else Some ((if eneg then - 1 else 1) * int (digits_val (takeWhile is_digit r1)),
                           dropWhile is_digit r1))
          else Some (0, cs))"

definition parse_number :: "string \<Rightarrow> (json \<times> string) option" where
  "parse_number cs =
     (let neg = (cs \<noteq> [] \<and> hd cs = CHR ''-'');
          cs1 = (if neg then tl cs else cs);
          ip = takeWhile is_digit cs1
      in if ip = [] \<or> (hd ip = CHR ''0'' \<and> length ip > 1) then None
         else
           (case parse_frac (dropWhile is_digit cs1) of
              None \<Rightarrow> None
            | Some (fp, cs3) \<Rightarrow>
                (case parse_exp cs3 of
                   None \<Rightarrow> None
                 | Some (ex, cs4) \<Rightarrow>
                     Some (JNum ((if neg then - 1 else 1) * int (digits_val (ip @ fp)))
                                (ex - int (length fp)), cs4))))"

fun obj_set :: "string \<Rightarrow> json \<Rightarrow> (string \<times> json) list \<Rightarrow> (string \<times> json) list" where
  "obj_set k v [] = [(k, v)]"
| "obj_set k v ((k', v') # ms) = (if k = k' then (k, v) # ms else (k', v') # obj_set k v ms)"

fun parse_value :: "nat \<Rightarrow> string \<Rightarrow> (json \<times> string) option"
  and parse_elements :: "nat \<Rightarrow> json list \<Rightarrow> string \<Rightarrow> (json \<times> string) option"
  and parse_members :: "nat \<Rightarrow> (string \<times> json) list \<Rightarrow> string \<Rightarrow> (json \<times> string) option"
where
  "parse_value 0 cs = None"
| "parse_value (Suc n) cs =
     (case skip_ws cs of
        [] \<Rightarrow> None
      | c # r \<Rightarrow>
          if c = CHR ''{'' then
            (case skip_ws r of
               [] \<Rightarrow> None
             | d # r' \<Rightarrow> if d = CHR ''}'' then Some (JObj [], r') else parse_members n [] r)
          else if c = CHR ''['' then
            (case skip_ws r of
               [] \<Rightarrow> None
             | d # r' \<Rightarrow> if d = CHR '']'' then Some (JArr [], r') else parse_elements n [] r)
          else if c = CHR 0x22 then
            (case parse_chars [] r of None \<Rightarrow> None | Some (s, r') \<Rightarrow> Some (JStr s, r'))
          else if take 4 (c # r) = ''true'' then Some (JBool True, drop 4 (c # r))
          else if take 5 (c # r) = ''false'' then Some (JBool False, drop 5 (c # r))
          else if take 4 (c # r) = ''null'' then Some (JNull, drop 4 (c # r))
          else parse_number (c # r))"
| "parse_elements 0 acc cs = None"
| "parse_elements (Suc n) acc cs =
     (case parse_value n cs of
        None \<Rightarrow> None
      | Some (v, r) \<Rightarrow>
          (case skip_ws r of
             [] \<Rightarrow> None
           | d # r' \<Rightarrow>
               if d = CHR '','' then parse_elements n (v # acc) r'
               else if d = CHR '']'' then Some (JArr (rev (v # acc)), r')
               else None))"
| "parse_members 0 acc cs = None"
| "parse_members (Suc n) acc cs =
     (case skip_ws cs of
        [] \<Rightarrow> None
      | q # r0 \<Rightarrow>
          if q \<noteq> CHR 0x22 then None
          else
            (case parse_chars [] r0 of
               None \<Rightarrow> None
             | Some (k, r1) \<Rightarrow>
                 (case skip_ws r1 of
                    [] \<Rightarrow> None
                  | col # r2 \<Rightarrow>
                      if col \<noteq> CHR '':'' then None
                      else
                        (case parse_value n r2 of
                           None \<Rightarrow> None
                         | Some (v, r3) \<Rightarrow>
                             (case skip_ws r3 of
                                [] \<Rightarrow> None
                              | d # r4 \<Rightarrow>
                                  if d = CHR '','' then parse_members n (obj_set k v acc) r4
                                  else if d = CHR ''}'' then Some (JObj (obj_set k v acc), r4)
                                  else None)))))"

text \<open>
  \<open>parse_value\<close>, \<open>parse_elements\<close> and \<open>parse_members\<close> descend with a budget that each
  nested call lowers by one. \<open>JSON_parse\<close> grants twice the length of the text, and the
  text must be used up but for white space.
\<close>

definition JSON_parse :: "string \<Rightarrow> json option" where
  "JSON_parse s =
     (case parse_value (Suc (2 * length s)) s of
        None \<Rightarrow> None
      | Some (v, r) \<Rightarrow> if skip_ws r = [] then Some v else None)"

definition hex_digit :: "nat \<Rightarrow> char" where
  "hex_digit n = (if n < 10 then char_of (48 + n) else char_of (87 + n))"

fun quote_chars :: "string \<Rightarrow> string" where
  "quote_chars [] = []"
| "quote_chars (c # cs) =
     (if c = CHR 0x22 then [CHR 0x5C, CHR 0x22]
      else if c = CHR 0x5C then [CHR 0x5C, CHR 0x5C]
      else if c = CHR 0x08 then [CHR 0x5C, CHR ''b'']
      else if c = CHR 0x0C then [CHR 0x5C, CHR ''f'']
      else if c = CHR 0x0A then [CHR 0x5C, CHR ''n'']
      else if c = CHR 0x0D then [CHR 0x5C, CHR ''r'']
      else if c = CHR 0x09 then [CHR 0x5C, CHR ''t'']
      else if (of_char c :: nat) < 32 then
        [CHR 0x5C, CHR ''u'', CHR ''0'', CHR ''0'',
         hex_digit (of_char c div 16), hex_digit (of_char c mod 16)]
      else [c]) @ quote_chars cs"

definition quote :: "string \<Rightarrow> string" where
  "quote s = CHR 0x22 # quote_chars s @ [CHR 0x22]"

fun show_nat :: "nat \<Rightarrow> string" where
  "show_nat n =
     (if n < 10 then [char_of (48 + n)]
      else show_nat (n div 10) @ [char_of (48 + n mod 10)])"

fun strip_zeros :: "string \<Rightarrow> string" where
  "strip_zeros [] = []"
| "strip_zeros (c # cs) =
     (case strip_zeros cs of
        [] \<Rightarrow> if c = CHR ''0'' then [] else [c]
      | d # r \<Rightarrow> c # d # r)"

text \<open>
  The decimal numeral of \<open>m * 10 ^ e\<close>, without exponent notation: \<^verbatim>\<open>-0\<close> is printed
  as \<^verbatim>\<open>0\<close>, and a fraction carries no trailing zero.
\<close>

definition show_num :: "int \<Rightarrow> int \<Rightarrow> string" where
  "show_num m e =
     (let ds = show_nat (nat \<bar>m\<bar>);
          sign = (if m < 0 then ''-'' else [])
      in if m = 0 then ''0''
         else if 0 \<le> e then sign @ ds @ replicate (nat e) CHR ''0''
         else
           (let k = nat (- e);
                padded = replicate (Suc k - length ds) CHR ''0'' @ ds;
                ip = take (length padded - k) padded;
                fp = strip_zeros (drop (length padded - k) padded)
            in sign @ ip @ (if fp = [] then [] else CHR ''.'' # fp)))"

fun join :: "string list \<Rightarrow> string" where
  "join [] = []"
| "join [x] = x"
| "join (x # y # ys) = x @ CHR '','' # join (y # ys)"

fun JSON_stringify :: "json \<Rightarrow> string" where
  "JSON_stringify JNull = ''null''"
| "JSON_stringify (JBool b) = (if b then ''true'' else ''false'')"
| "JSON_stringify (JNum m e) = show_num m e"
| "JSON_stringify (JStr s) = quote s"
| "JSON_stringify (JArr xs) = CHR ''['' # join (map JSON_stringify xs) @ '']''"
| "JSON_stringify (JObj ms) =
     CHR ''{'' # join (map (\<lambda>(k, v). quote k @ CHR '':'' # JSON_stringify v) ms) @ ''}''"

text \<open>\<^verbatim>\<open>Object.keys(v)\<close> for a parsed or received value.\<close>

fun object_keys :: "json \<Rightarrow> string list" where
  "object_keys (JObj ms) = map fst ms"
| "object_keys v = []"

subsection \<open>The scenarios of the specification\<close>

text \<open>
  The data of Scenario C of the specification: the backend returns the token
  \<^verbatim>\<open>"tok123"\<close> and then the profile of a baker with \<^verbatim>\<open>id\<close> 1. \<open>fresh_world\<close> is a
  browser with empty storage in which \<^verbatim>\<open>AuthProvider\<close> has just mounted; \<open>idle_world\<close> is
  the same browser once \<^verbatim>\<open>initAuth\<close> has finished there.
\<close>

definition scenario_response :: AuthResponse where
  "scenario_response = \<lparr>access_token = ''tok123'', token_type = ''bearer''\<rparr>"

definition scenario_profile :: UserProfile where
  "scenario_profile =
     \<lparr>id_field = 1, email = ''a@b.com'', username = ''ab'', full_name = ''A B'',
      role = Baker, is_active = True\<rparr>"

definition fresh_world :: world where
  "fresh_world =
     \<lparr>localStorage = Map.empty, location_href = ''/login'', defaults_Authorization = None,
      sent = [], toasts = [], user = JNull, loading = True\<rparr>"

definition idle_world :: world where
  "idle_world = fresh_world\<lparr>loading := False\<rparr>"

text \<open>The session after the login of Scenario C in the idle browser.\<close>

definition logged_in_world :: world where
  "logged_in_world =
     snd (login JSON_stringify (Inr scenario_response) (Inr (UserProfile_json scenario_profile)) idle_world)"

text \<open>
  A browser whose store holds a user entry that is not JSON (and no token), as
  \<^verbatim>\<open>AuthProvider\<close> mounts; and one whose store holds the token and the user of
  Scenario C.
\<close>

definition corrupted_world :: world where
  "corrupted_world = fresh_world\<lparr>localStorage := [USER_KEY \<mapsto> ''{'']\<rparr>"

definition returning_world :: world where
  "returning_world =
     fresh_world\<lparr>localStorage :=
       [TOKEN_KEY \<mapsto> ''tok123'',
        USER_KEY \<mapsto> JSON_stringify (UserProfile_json scenario_profile)]\<rparr>"

text \<open>
  Two other answers of the current-user endpoint to the login of Scenario C: the empty
  string as body, and the profile with a \<^verbatim>\<open>created_at\<close> member besides the six
  declared ones; and the session the first of these logins leaves in the idle browser.
\<close>

definition dated_profile :: json where
  "dated_profile =
     JObj [(''id'', JNum 1 0),
           (''email'', JStr ''a@b.com''),
           (''username'', JStr ''ab''),
           (''full_name'', JStr ''A B''),
           (''role'', JStr ''baker''),
           (''is_active'', JBool True),
           (''created_at'', JStr ''2024-01-15T08:00:00'')]"

definition empty_body_world :: world where
  "empty_body_world =
     snd (login JSON_stringify (Inr scenario_response) (Inr (JStr [])) idle_world)"

text \<open>
  An authenticated, idle session whose current user is the profile of Scenario C with
  the role \<open>r\<close>.
\<close>

definition session_of :: "UserRole \<Rightarrow> world" where
  "session_of r = idle_world\<lparr>user := UserProfile_json (scenario_profile\<lparr>role := r\<rparr>)\<rparr>"

section \<open>Results\<close>

subsection \<open>Evaluation lemmas\<close>

text \<open>
  How one call through the axios instance and its interceptors rewrites the world, and
  the values of the scenarios.
\<close>

lemma axios_request_Inr [simp]:
  "axios_request m u (Inr d) w =
     (Inr d, w\<lparr>sent := sent w @ [request_interceptor (localStorage w)
        \<lparr>http_method = m, url = u, Authorization = defaults_Authorization w\<rparr>]\<rparr>)"
  by (simp add: axios_request_def Let_def)

lemma axios_request_Inl [simp]:
  "axios_request m u (Inl e) w =
     (Inl e, response_rejected e (w\<lparr>sent := sent w @ [request_interceptor (localStorage w)
        \<lparr>http_method = m, url = u, Authorization = defaults_Authorization w\<rparr>]\<rparr>))"
  by (simp add: axios_request_def Let_def)

lemma response_rejected_fields [simp]:
  "user (response_rejected e w) = user w"
  "loading (response_rejected e w) = loading w"
  "sent (response_rejected e w) = sent w"
  "toasts (response_rejected e w) = toasts w"
  "defaults_Authorization (response_rejected e w) = defaults_Authorization w"
  by (simp_all add: response_rejected_def)

lemma response_rejected_401 [simp]:
  "response_status e = Some 401 \<Longrightarrow>
     localStorage (response_rejected e w) = ((localStorage w)(''token'' := None))(''user'' := None)"
  "response_status e = Some 401 \<Longrightarrow> location_href (response_rejected e w) = ''/login''"
  by (simp_all add: response_rejected_def)

lemma response_rejected_other [simp]:
  "response_status e \<noteq> Some 401 \<Longrightarrow> response_rejected e w = w"
  by (simp add: response_rejected_def)

lemma setAuthToken_fields [simp]:
  "user (setAuthToken t w) = user w"
  "loading (setAuthToken t w) = loading w"
  "sent (setAuthToken t w) = sent w"
  "toasts (setAuthToken t w) = toasts w"
  "localStorage (setAuthToken t w) = localStorage w"
  "location_href (setAuthToken t w) = location_href w"
  by (simp_all add: setAuthToken_def split: option.splits)

lemma JSON_parse_open_brace: "JSON_parse ''{'' = None"
  by code_simp

text \<open>That text is rejected under every budget, not for want of one.\<close>

lemma parse_value_open_brace: "parse_value n ''{'' = None"
  by (cases n) (simp_all add: skip_ws_def is_ws_def)

lemma JSON_parse_scenario_profile:
  "JSON_parse (JSON_stringify (UserProfile_json scenario_profile)) =
     Some (UserProfile_json scenario_profile)"
  by code_simp

lemma JSON_stringify_scenario_profile_nonempty:
  "JSON_stringify (UserProfile_json scenario_profile) \<noteq> []"
  by (simp add: UserProfile_json_def)

lemma logged_in_world_token: "localStorage logged_in_world ''token'' = Some ''tok123''"
  by (simp add: logged_in_world_def login_def apiService_login_def
        apiService_getCurrentUser_def Let_def setToken_def setUser_def TOKEN_KEY_def
        USER_KEY_def scenario_response_def)

lemma truthy_UserProfile_json [simp]: "truthy (UserProfile_json p)"
  by (simp add: UserProfile_json_def)

lemma UserProfile_json_not_null [simp]: "UserProfile_json p \<noteq> JNull"
  by (simp add: UserProfile_json_def)

lemma initAuth_keeps_user_shape:
  "initAuth parse me_reply w = (res, w') \<Longrightarrow> user w = JNull \<or> truthy (user w) \<Longrightarrow>
     user w' = JNull \<or> truthy (user w')"
  by (cases me_reply)
     (auto simp add: initAuth_def apiService_getCurrentUser_def Let_def
        split: sum.splits if_splits)

lemma login_keeps_user_shape:
  "login stringify login_reply me_reply w = (res, w') \<Longrightarrow>
   \<forall>body. me_reply = Inr body \<longrightarrow> truthy body \<Longrightarrow>
   user w = JNull \<or> truthy (user w) \<Longrightarrow>
     user w' = JNull \<or> truthy (user w')"
  by (cases login_reply; cases me_reply)
     (auto simp add: login_def apiService_login_def apiService_getCurrentUser_def Let_def)

lemma register_keeps_user:
  "register reply w = (res, w') \<Longrightarrow> user w' = user w"
  by (cases reply) (auto simp add: register_def apiService_register_def)

lemma initAuth_fresh_world:
  "initAuth JSON_parse me_reply fresh_world = (Inr (), idle_world)"
  by (simp add: initAuth_def getUser_def getToken_def fresh_world_def idle_world_def
        USER_KEY_def TOKEN_KEY_def)

lemma reachable_idle_world: "reachable JSON_parse JSON_stringify bodies idle_world"
proof -
  have "reachable JSON_parse JSON_stringify bodies fresh_world"
    by (rule reachable.mount) (simp_all add: fresh_world_def)
  then show ?thesis
    using initAuth_fresh_world by (rule reachable.after_initAuth)
qed

lemma reachable_logged_in_world: "reachable JSON_parse JSON_stringify truthy logged_in_world"
proof -
  have run: "login JSON_stringify (Inr scenario_response)
        (Inr (UserProfile_json scenario_profile)) idle_world =
      (fst (login JSON_stringify (Inr scenario_response)
              (Inr (UserProfile_json scenario_profile)) idle_world),
       logged_in_world)"
    by (simp add: logged_in_world_def)
  show ?thesis
    by (rule reachable.after_login [OF reachable_idle_world _ run]) simp
qed

lemma reachable_empty_body_world:
  "reachable JSON_parse JSON_stringify any_body empty_body_world"
proof -
  have run: "login JSON_stringify (Inr scenario_response) (Inr (JStr [])) idle_world =
      (fst (login JSON_stringify (Inr scenario_response) (Inr (JStr [])) idle_world),
       empty_body_world)"
    by (simp add: empty_body_world_def)
  show ?thesis
    by (rule reachable.after_login [OF reachable_idle_world _ run]) (simp add: any_body_def)
qed

lemma empty_body_world_user: "user empty_body_world = JStr []"
  by (simp add: empty_body_world_def login_def apiService_login_def
        apiService_getCurrentUser_def Let_def)

lemma logged_in_world_idle: "\<not> loading logged_in_world"
  by (simp add: logged_in_world_def login_def apiService_login_def
        apiService_getCurrentUser_def Let_def)

lemma logged_in_world_user: "user logged_in_world = UserProfile_json scenario_profile"
  by (simp add: logged_in_world_def login_def apiService_login_def
        apiService_getCurrentUser_def Let_def)

lemma getUser_returning_world:
  "getUser JSON_parse (localStorage returning_world) = Inr (UserProfile_json scenario_profile)"
  using JSON_parse_scenario_profile JSON_stringify_scenario_profile_nonempty
  by (simp add: getUser_def returning_world_def USER_KEY_def TOKEN_KEY_def
        del: JSON_stringify.simps)

lemma role_of_scenario_profile:
  "get_prop (UserProfile_json scenario_profile) ''role'' = Some (JStr ''baker'')"
  by (simp add: UserProfile_json_def scenario_profile_def)

lemma returning_world_fields:
  "user returning_world = JNull"
  "getToken (localStorage returning_world) = Some ''tok123''"
  "loading returning_world"
  "sent returning_world = []"
  by (simp_all add: returning_world_def fresh_world_def getToken_def TOKEN_KEY_def USER_KEY_def)

subsection \<open>C1: a failing profile fetch during login\<close>

text \<open>
  C1 (as stated): when the credentials exchange succeeds and the profile fetch fails,
  login ends unauthenticated and with no token left in the store.

  The code does not roll back. With an idle session on an empty store, the token
  \<^verbatim>\<open>"tok123"\<close> and a profile fetch that fails with status 500, the token is still in
  the store when \<^verbatim>\<open>login\<close> has re-raised the failure.
\<close>

theorem login_leaves_token_behind:
  "fst (login JSON_stringify (Inr scenario_response) (Inl (AxiosError (Some 500) None))
          idle_world) = Inl (AxiosError (Some 500) None) \<and>
   getToken (localStorage (snd (login JSON_stringify (Inr scenario_response)
      (Inl (AxiosError (Some 500) None)) idle_world))) = Some ''tok123''"
  by (simp add: login_def apiService_login_def apiService_getCurrentUser_def Let_def
        setToken_def getToken_def TOKEN_KEY_def scenario_response_def fresh_world_def
        idle_world_def)

text \<open>
  C1 (amended): when the credentials exchange succeeds and the profile fetch fails,
  \<^verbatim>\<open>login\<close> re-raises that failure with \<^verbatim>\<open>loading\<close> false and the current user as it was
  before the call (absent, if the session was unauthenticated). The store is not rolled
  back: the token just persisted stays there and the user entry is as before, unless
  the failure is a 401 response, for which the response interceptor has removed both
  entries and set the location to the login view.
\<close>

theorem login_profile_fetch_fails:
  "login stringify (Inr response) (Inl error) w = (res, w') \<Longrightarrow>
     res = Inl error \<and> user w' = user w \<and> \<not> loading w' \<and>
     (if response_status error = Some 401
      then getToken (localStorage w') = None \<and> localStorage w' USER_KEY = None \<and>
           location_href w' = ''/login''
      else getToken (localStorage w') = Some (access_token response) \<and>
           localStorage w' USER_KEY = localStorage w USER_KEY \<and>
           location_href w' = location_href w)"
  by (auto simp add: login_def apiService_login_def apiService_getCurrentUser_def Let_def
        setToken_def getToken_def TOKEN_KEY_def USER_KEY_def)

theorem login_profile_fetch_fails_witness:
  "fst (login JSON_stringify (Inr scenario_response) (Inl (AxiosError (Some 401) None))
          fresh_world) = Inl (AxiosError (Some 401) None) \<and>
   user (snd (login JSON_stringify (Inr scenario_response) (Inl (AxiosError (Some 401) None))
          fresh_world)) = JNull \<and>
   getToken (localStorage (snd (login JSON_stringify (Inr scenario_response)
          (Inl (AxiosError (Some 401) None)) fresh_world))) = None \<and>
   fst (login JSON_stringify (Inr scenario_response) (Inl (AxiosError None None))
          fresh_world) = Inl (AxiosError None None) \<and>
   user (snd (login JSON_stringify (Inr scenario_response) (Inl (AxiosError None None))
          fresh_world)) = JNull \<and>
   \<not> loading (snd (login JSON_stringify (Inr scenario_response) (Inl (AxiosError None None))
          fresh_world)) \<and>
   getToken (localStorage (snd (login JSON_stringify (Inr scenario_response)
          (Inl (AxiosError None None)) fresh_world))) = Some ''tok123''"
  using
    login_profile_fetch_fails [of JSON_stringify scenario_response
      "AxiosError (Some 401) None" fresh_world
      "fst (login JSON_stringify (Inr scenario_response) (Inl (AxiosError (Some 401) None))
             fresh_world)"
      "snd (login JSON_stringify (Inr scenario_response) (Inl (AxiosError (Some 401) None))
             fresh_world)"]
    login_profile_fetch_fails [of JSON_stringify scenario_response
      "AxiosError None None" fresh_world
      "fst (login JSON_stringify (Inr scenario_response) (Inl (AxiosError None None))
             fresh_world)"
      "snd (login JSON_stringify (Inr scenario_response) (Inl (AxiosError None None))
             fresh_world)"]
  by (simp add: fresh_world_def scenario_response_def)

subsection \<open>C2: a response with status 401\<close>

text \<open>
  C2 (as stated): on a 401 the response interceptor clears the token and user entries
  and forces the login view, with no retry, and the 401 is never propagated as a
  rejected call to the business logic.

  The handler ends with \<^verbatim>\<open>return Promise.reject(error)\<close>. When the credentials exchange
  of \<^verbatim>\<open>login\<close> is answered with a 401, \<^verbatim>\<open>login\<close> catches that very error, shows its
  detail as a toast and re-raises it to its own caller.
\<close>

theorem unauthorized_reaches_the_caller:
  "fst (login JSON_stringify (Inl (AxiosError (Some 401) (Some ''Incorrect email or password'')))
          (Inr (UserProfile_json scenario_profile)) idle_world) =
     Inl (AxiosError (Some 401) (Some ''Incorrect email or password'')) \<and>
   toasts (snd (login JSON_stringify
          (Inl (AxiosError (Some 401) (Some ''Incorrect email or password'')))
          (Inr (UserProfile_json scenario_profile)) idle_world)) =
     [toast_error ''Incorrect email or password'']"
  by (simp add: login_def apiService_login_def detail_or_def fresh_world_def idle_world_def)

text \<open>
  C2 (amended): on a response with status 401 the response interceptor removes the
  token and user entries from the store and sets the location to the login view; the
  request was sent once and is not retried; and the call is then rejected with the same
  error, which reaches the caller like any other failure.
\<close>

theorem unauthorized_is_torn_down_and_rejected:
  "response_status error = Some 401 \<Longrightarrow> axios_request m u (Inl error) w = (res, w') \<Longrightarrow>
     res = Inl error \<and>
     localStorage w' ''token'' = None \<and> localStorage w' ''user'' = None \<and>
     location_href w' = ''/login'' \<and>
     sent w' = sent w @ [request_interceptor (localStorage w)
                 \<lparr>http_method = m, url = u, Authorization = defaults_Authorization w\<rparr>]"
  by auto

theorem unauthorized_is_torn_down_and_rejected_witness:
  "response_status (AxiosError (Some 401) None) = Some 401 \<and>
   fst (apiService_getCurrentUser (Inl (AxiosError (Some 401) None)) logged_in_world) =
     Inl (AxiosError (Some 401) None) \<and>
   localStorage logged_in_world ''token'' = Some ''tok123'' \<and>
   localStorage (snd (apiService_getCurrentUser (Inl (AxiosError (Some 401) None))
     logged_in_world)) ''token'' = None \<and>
   localStorage (snd (apiService_getCurrentUser (Inl (AxiosError (Some 401) None))
     logged_in_world)) ''user'' = None \<and>
   location_href (snd (apiService_getCurrentUser (Inl (AxiosError (Some 401) None))
     logged_in_world)) = ''/login'' \<and>
   length (sent (snd (apiService_getCurrentUser (Inl (AxiosError (Some 401) None))
     logged_in_world))) = length (sent logged_in_world) + 1"
  using unauthorized_is_torn_down_and_rejected [of "AxiosError (Some 401) None"
      "''get''" "''/api/auth/me''" logged_in_world
      "fst (apiService_getCurrentUser (Inl (AxiosError (Some 401) None)) logged_in_world)"
      "snd (apiService_getCurrentUser (Inl (AxiosError (Some 401) None)) logged_in_world)"]
  by (simp add: apiService_getCurrentUser_def logged_in_world_token)

subsection \<open>C3: reading the stored user\<close>

text \<open>
  C3 (as stated): \<^verbatim>\<open>getUser()\<close> returns the deserialised user when parsing succeeds and
  absent when it fails; it never raises, so that startup restoration over a corrupted
  user record resolves to unauthenticated.

  \<^verbatim>\<open>getUser\<close> calls \<^verbatim>\<open>JSON.parse\<close> with no handler around it. On the stored text
  \<^verbatim>\<open>{\<close>, which ends where a member or the closing brace is due, it raises the
  \<^verbatim>\<open>SyntaxError\<close>.
\<close>

theorem getUser_raises_on_corrupted_record:
  "getUser JSON_parse [USER_KEY \<mapsto> ''{''] = Inl SyntaxError"
  by (simp add: getUser_def JSON_parse_open_brace)

text \<open>
  C3 (amended): \<^verbatim>\<open>getUser()\<close> returns the deserialised value when parsing succeeds, and
  absent when nothing or the empty string is stored under the user key. When
  deserialisation fails, the error is raised to the caller; startup restoration over
  such a record is rejected with that error and leaves the session as it was on mount,
  with \<^verbatim>\<open>loading\<close> still true.
\<close>

theorem getUser_deserialises_or_raises:
  "(ls USER_KEY = Some s \<and> s \<noteq> [] \<and> parse s = Some v \<longrightarrow> getUser parse ls = Inr v) \<and>
   (ls USER_KEY = None \<or> ls USER_KEY = Some [] \<longrightarrow> getUser parse ls = Inr JNull) \<and>
   (ls USER_KEY = Some s \<and> s \<noteq> [] \<and> parse s = None \<longrightarrow>
      getUser parse ls = Inl SyntaxError \<and>
      initAuth parse me_reply (w\<lparr>localStorage := ls\<rparr>) =
        (Inl SyntaxError, w\<lparr>localStorage := ls\<rparr>))"
  by (auto simp add: getUser_def initAuth_def split: option.splits)

theorem getUser_deserialises_or_raises_witness:
  "getUser JSON_parse (localStorage returning_world) = Inr (UserProfile_json scenario_profile) \<and>
   getUser JSON_parse Map.empty = Inr JNull \<and>
   getUser JSON_parse (localStorage corrupted_world) = Inl SyntaxError \<and>
   fst (initAuth JSON_parse (Inr (UserProfile_json scenario_profile)) corrupted_world) = Inl SyntaxError \<and>
   loading (snd (initAuth JSON_parse (Inr (UserProfile_json scenario_profile)) corrupted_world))"
  using
    getUser_deserialises_or_raises [of "localStorage returning_world"
      "JSON_stringify (UserProfile_json scenario_profile)" JSON_parse
      "UserProfile_json scenario_profile"]
    getUser_deserialises_or_raises [of Map.empty undefined JSON_parse]
    getUser_deserialises_or_raises [of "localStorage corrupted_world" "''{''" JSON_parse
      undefined "Inr (UserProfile_json scenario_profile)" corrupted_world]
  by (simp add: returning_world_def corrupted_world_def fresh_world_def USER_KEY_def
        TOKEN_KEY_def JSON_parse_open_brace JSON_parse_scenario_profile
        JSON_stringify_scenario_profile_nonempty)

subsection \<open>C4: the decision of the route guard\<close>

text \<open>
  C4: the guard shows the loading indicator while the session is restoring; else it
  redirects an unauthenticated session to the login view, carrying the location asked
  for; else, when a required role is declared and the current user's role is not exactly
  that role, it redirects to the home view of the user's own role by the fixed mapping
  (admin, baker and delivery\_person to their homes, anything else to the default home),
  which is never the login view; else it renders the destination.
\<close>

theorem ProtectedRoute_decision:
  "ProtectedRoute w requiredRole location children =
     (if loading w then CircularProgress
      else if \<not> isAuthenticated w then Navigate login_view (Some location)
      else if \<exists>r. requiredRole = Some r \<and>
                  get_prop (user w) ''role'' \<noteq> Some (JStr (role_str r))
        then Navigate (role_home (get_prop (user w) ''role'')) None
      else Children children) \<and>
   role_home (get_prop (user w) ''role'') \<in>
     {admin_home, baker_home, delivery_home, default_home} \<and>
   role_home (get_prop (user w) ''role'') \<noteq> login_view"
  by (auto simp add: ProtectedRoute_def role_home_def login_view_def admin_home_def
        baker_home_def delivery_home_def default_home_def
        split: option.splits json.splits)

text \<open>
  The routes of property P5 and of Scenarios A and B of the specification, and a
  guarded route while the session is restoring.
\<close>

theorem ProtectedRoute_decision_witness:
  "ProtectedRoute (session_of Customer) (Some Baker) ''/baker'' () = Navigate ''/'' None \<and>
   ProtectedRoute (session_of Delivery_person) (Some Baker) ''/baker'' () =
     Navigate ''/delivery'' None \<and>
   ProtectedRoute (session_of Admin) (Some Baker) ''/baker'' () = Navigate ''/admin'' None \<and>
   ProtectedRoute (session_of Baker) (Some Baker) ''/baker'' () = Children () \<and>
   ProtectedRoute idle_world None ''/orders'' () = Navigate ''/login'' (Some ''/orders'') \<and>
   ProtectedRoute (session_of Customer) (Some Admin) ''/admin'' () = Navigate ''/'' None \<and>
   ProtectedRoute fresh_world (Some Admin) ''/admin'' () = CircularProgress"
  using ProtectedRoute_decision [of "session_of Customer" "Some Baker" "''/baker''" "()"]
    ProtectedRoute_decision [of "session_of Delivery_person" "Some Baker" "''/baker''" "()"]
    ProtectedRoute_decision [of "session_of Admin" "Some Baker" "''/baker''" "()"]
    ProtectedRoute_decision [of "session_of Baker" "Some Baker" "''/baker''" "()"]
    ProtectedRoute_decision [of idle_world None "''/orders''" "()"]
    ProtectedRoute_decision [of "session_of Customer" "Some Admin" "''/admin''" "()"]
    ProtectedRoute_decision [of fresh_world "Some Admin" "''/admin''" "()"]
  by (simp add: session_of_def idle_world_def fresh_world_def isAuthenticated_def
        UserProfile_json_def scenario_profile_def role_home_def login_view_def admin_home_def
        baker_home_def delivery_home_def default_home_def)

subsection \<open>C5: startup restoration\<close>

text \<open>
  C5 (as stated): with a token and a cached user stored, a successful validation call
  makes the session authenticated as the cached user and a failing one clears the store
  and leaves it unauthenticated; with the token or the cached user absent, the session
  is unauthenticated without a validation call; and \<^verbatim>\<open>loading\<close> ends false in every
  branch.

  \<^verbatim>\<open>initAuth\<close> calls \<^verbatim>\<open>authUtils.getUser()\<close> first, outside its \<^verbatim>\<open>try\<close>. With no token
  stored and the text \<^verbatim>\<open>{\<close> under the user key, the token is absent, yet
  \<^verbatim>\<open>initAuth\<close> is rejected and \<^verbatim>\<open>loading\<close> stays true.
\<close>

theorem initAuth_stuck_on_corrupted_record:
  "getToken (localStorage corrupted_world) = None \<and>
   fst (initAuth JSON_parse (Inr (UserProfile_json scenario_profile)) corrupted_world) = Inl SyntaxError \<and>
   loading (snd (initAuth JSON_parse (Inr (UserProfile_json scenario_profile)) corrupted_world))"
  by (simp add: initAuth_def getUser_def getToken_def corrupted_world_def fresh_world_def
        USER_KEY_def TOKEN_KEY_def JSON_parse_open_brace)

text \<open>
  C5 (amended): provided the stored user entry deserialises, startup restoration ends
  with \<^verbatim>\<open>loading\<close> false, as follows. If a non-empty token and a truthy cached user
  are stored, one validation call is made; when it succeeds, the session is
  authenticated with the cached user as current user and the store is untouched; when
  it fails with any error, the token and user entries are removed and the session is
  unauthenticated. Otherwise (the token or the cached user is absent or falsy) no call
  is made and the session is unauthenticated.
\<close>

theorem initAuth_restores_session:
  "user w = JNull \<Longrightarrow> getUser parse (localStorage w) = Inr storedUser \<Longrightarrow>
   initAuth parse me_reply w = (res, w') \<Longrightarrow>
     res = Inr () \<and> \<not> loading w' \<and>
     (if truthy_str (getToken (localStorage w)) \<and> truthy storedUser then
        sent w' = sent w @ [request_interceptor (localStorage w)
          \<lparr>http_method = ''get'', url = ''/api/auth/me'',
           Authorization = defaults_Authorization w\<rparr>] \<and>
        (case me_reply of
           Inr profile \<Rightarrow>
             user w' = storedUser \<and> isAuthenticated w' \<and> localStorage w' = localStorage w
         | Inl error \<Rightarrow>
             user w' = JNull \<and> \<not> isAuthenticated w' \<and>
             getToken (localStorage w') = None \<and> localStorage w' USER_KEY = None)
      else sent w' = sent w \<and> user w' = JNull \<and> \<not> isAuthenticated w' \<and>
           localStorage w' = localStorage w)"
  by (cases me_reply)
     (auto simp add: initAuth_def apiService_getCurrentUser_def isAuthenticated_def
        authUtils_logout_def removeUser_def removeToken_def getToken_def
        TOKEN_KEY_def USER_KEY_def response_rejected_def)

theorem initAuth_restores_session_witness:
  "user (snd (initAuth JSON_parse (Inr (UserProfile_json scenario_profile)) returning_world)) =
     UserProfile_json scenario_profile \<and>
   isAuthenticated (snd (initAuth JSON_parse (Inr (UserProfile_json scenario_profile)) returning_world)) \<and>
   \<not> loading (snd (initAuth JSON_parse (Inr (UserProfile_json scenario_profile)) returning_world)) \<and>
   user (snd (initAuth JSON_parse (Inl (AxiosError (Some 401) None)) returning_world)) = JNull \<and>
   getToken (localStorage (snd (initAuth JSON_parse (Inl (AxiosError (Some 401) None))
     returning_world))) = None \<and>
   localStorage (snd (initAuth JSON_parse (Inl (AxiosError (Some 401) None))
     returning_world)) USER_KEY = None \<and>
   \<not> loading (snd (initAuth JSON_parse (Inl (AxiosError (Some 401) None)) returning_world)) \<and>
   sent (snd (initAuth JSON_parse (Inr (UserProfile_json scenario_profile)) fresh_world)) = [] \<and>
   \<not> isAuthenticated (snd (initAuth JSON_parse (Inr (UserProfile_json scenario_profile)) fresh_world)) \<and>
   \<not> loading (snd (initAuth JSON_parse (Inr (UserProfile_json scenario_profile)) fresh_world))"
  using
    initAuth_restores_session [of returning_world JSON_parse "UserProfile_json scenario_profile"
      "Inr (UserProfile_json scenario_profile)"
      "fst (initAuth JSON_parse (Inr (UserProfile_json scenario_profile)) returning_world)"
      "snd (initAuth JSON_parse (Inr (UserProfile_json scenario_profile)) returning_world)"]
    initAuth_restores_session [of returning_world JSON_parse "UserProfile_json scenario_profile"
      "Inl (AxiosError (Some 401) None)"
      "fst (initAuth JSON_parse (Inl (AxiosError (Some 401) None)) returning_world)"
      "snd (initAuth JSON_parse (Inl (AxiosError (Some 401) None)) returning_world)"]
    initAuth_restores_session [of fresh_world JSON_parse JNull
      "Inr (UserProfile_json scenario_profile)"
      "fst (initAuth JSON_parse (Inr (UserProfile_json scenario_profile)) fresh_world)"
      "snd (initAuth JSON_parse (Inr (UserProfile_json scenario_profile)) fresh_world)"]
  by (simp add: returning_world_fields getUser_returning_world)
     (simp add: fresh_world_def getUser_def getToken_def USER_KEY_def TOKEN_KEY_def)

subsection \<open>C6: authenticated and a current user\<close>

text \<open>
  C6 (as stated): in every state the route guard can observe, \<^verbatim>\<open>isAuthenticated\<close> holds
  exactly when the current user is not \<^verbatim>\<open>null\<close>.

  \<^verbatim>\<open>isAuthenticated\<close> is \<^verbatim>\<open>!!user\<close>, and \<^verbatim>\<open>login\<close> stores the body of the current-user
  answer unchecked. When that body is the empty string, the session that \<^verbatim>\<open>login\<close>
  leaves has a current user that is not \<^verbatim>\<open>null\<close> and is not authenticated. (The guard
  reads the \<^verbatim>\<open>isAuthenticated\<close> of the context; \<^verbatim>\<open>authUtils.isAuthenticated\<close>, over the
  store, is not read by it.)
\<close>

theorem user_present_yet_unauthenticated:
  "reachable JSON_parse JSON_stringify any_body empty_body_world \<and>
   user empty_body_world \<noteq> JNull \<and>
   \<not> isAuthenticated empty_body_world"
  using reachable_empty_body_world
  by (simp add: empty_body_world_user isAuthenticated_def)

text \<open>
  While every body the current-user endpoint answers a login with is truthy, the
  \<^verbatim>\<open>user\<close> cell only ever holds \<^verbatim>\<open>null\<close> or a truthy value: \<^verbatim>\<open>initAuth\<close> stores the cached
  user only under the test \<^verbatim>\<open>token && storedUser\<close>.
\<close>

lemma reachable_user_shape:
  "reachable parse stringify bodies w \<Longrightarrow> \<forall>body. bodies body \<longrightarrow> truthy body \<Longrightarrow>
     user w = JNull \<or> truthy (user w)"
proof (induction rule: reachable.induct)
  case (mount w)
  then show ?case by simp
next
  case (after_initAuth w me_reply res w')
  then show ?case using initAuth_keeps_user_shape by blast
next
  case (after_login w me_reply login_reply res w')
  then have "\<forall>body. me_reply = Inr body \<longrightarrow> truthy body" by blast
  with after_login show ?case using login_keeps_user_shape by blast
next
  case (after_register w reply res w')
  then show ?case using register_keeps_user by metis
next
  case (after_logout w)
  then show ?case by (simp add: logout_def)
next
  case (in_flight w)
  then show ?case by simp
next
  case (storage_changed w ls)
  then show ?case by simp
qed

text \<open>
  C6 (amended): in every state the route guard can observe, \<^verbatim>\<open>isAuthenticated\<close> is the
  truthiness of the current user, so an authenticated session always has a current
  user that is not \<^verbatim>\<open>null\<close>; and it holds exactly when the current user is not \<^verbatim>\<open>null\<close>
  as long as every body the current-user endpoint answers a login with is truthy, as
  every object is.
\<close>

theorem isAuthenticated_is_truthiness:
  "reachable parse stringify bodies w \<Longrightarrow>
     isAuthenticated w = truthy (user w) \<and>
     (isAuthenticated w \<longrightarrow> user w \<noteq> JNull) \<and>
     ((\<forall>body. bodies body \<longrightarrow> truthy body) \<longrightarrow> isAuthenticated w = (user w \<noteq> JNull))"
  using reachable_user_shape [of parse stringify bodies w]
  by (auto simp add: isAuthenticated_def)

theorem isAuthenticated_is_truthiness_witness:
  "reachable JSON_parse JSON_stringify truthy logged_in_world \<and>
   isAuthenticated logged_in_world \<and> user logged_in_world \<noteq> JNull"
  using isAuthenticated_is_truthiness [OF reachable_logged_in_world]
    reachable_logged_in_world
  by (simp add: logged_in_world_user)

subsection \<open>C7: the bearer token on outgoing requests\<close>

text \<open>
  What the request interceptor does by itself: with a non-empty token in the store it
  sets the header from that token, and otherwise it leaves the request as it is.
\<close>

lemma request_interceptor_token:
  "ls ''token'' = Some token \<Longrightarrow> token \<noteq> [] \<Longrightarrow>
     request_interceptor ls config = config\<lparr>Authorization := Some (''Bearer '' @ token)\<rparr>"
  by (simp add: request_interceptor_def)

lemma request_interceptor_no_token:
  "\<not> truthy_str (ls ''token'') \<Longrightarrow> request_interceptor ls config = config"
  by (cases "ls ''token''") (simp_all add: request_interceptor_def)

text \<open>
  C7: a request carries \<^verbatim>\<open>Authorization: Bearer <token>\<close> exactly when a token is in the
  store, and is sent without that header when none is stored.

  The code breaks this after a logout. \<^verbatim>\<open>login\<close> also installs the header in the defaults
  of the axios instance (\<^verbatim>\<open>setAuthToken\<close>), and \<^verbatim>\<open>logout\<close> clears the store only. After
  the login of Scenario C and a logout no token is stored, and the next request (here a
  registration) still leaves with \<^verbatim>\<open>Bearer tok123\<close>. The three requests sent are the
  credentials exchange, the profile fetch and the registration.
\<close>

theorem stale_bearer_after_logout:
  "getToken (localStorage (logout logged_in_world)) = None \<and>
   map Authorization
     (sent (snd (register (Inr JNull :: exn + json) (logout logged_in_world)))) =
     [None, Some ''Bearer tok123'', Some ''Bearer tok123'']"
  by (simp add: logged_in_world_def login_def register_def logout_def apiService_login_def
        apiService_getCurrentUser_def apiService_register_def Let_def setToken_def setUser_def
        setAuthToken_def getToken_def authUtils_logout_def removeToken_def removeUser_def
        request_interceptor_def TOKEN_KEY_def USER_KEY_def scenario_response_def
        idle_world_def fresh_world_def)

subsection \<open>C8: role exact-match\<close>

text \<open>
  C8: \<^verbatim>\<open>hasRole(r)\<close> is true exactly when there is a current user whose role strictly
  equals \<open>r\<close>. It is false for every unauthenticated session, and \<^verbatim>\<open>hasRole('admin')\<close> is
  false whenever the role is anything other than the string \<^verbatim>\<open>admin\<close>. The store-based
  \<^verbatim>\<open>authUtils.hasRole\<close> returns true exactly when the stored user is read and carries
  that role.
\<close>

theorem hasRole_exact_match:
  "(hasRole w r \<longleftrightarrow> user w \<noteq> JNull \<and> get_prop (user w) ''role'' = Some (JStr r)) \<and>
   (\<not> isAuthenticated w \<longrightarrow> \<not> hasRole w r) \<and>
   (get_prop (user w) ''role'' \<noteq> Some (JStr ''admin'') \<longrightarrow> \<not> hasRole w ''admin'') \<and>
   (authUtils_hasRole parse ls r = Inr True \<longleftrightarrow>
      (\<exists>usr. getUser parse ls = Inr usr \<and> usr \<noteq> JNull \<and>
             get_prop usr ''role'' = Some (JStr r)))"
  by (cases "user w") (auto simp add: hasRole_def isAuthenticated_def authUtils_hasRole_def
        split: sum.splits)

theorem hasRole_exact_match_witness:
  "hasRole logged_in_world ''baker'' \<and> \<not> hasRole logged_in_world ''admin'' \<and>
   \<not> isAuthenticated fresh_world \<and> \<not> hasRole fresh_world ''admin'' \<and>
   authUtils_hasRole JSON_parse (localStorage returning_world) ''baker'' = Inr True"
  using hasRole_exact_match [of logged_in_world "''baker''" JSON_parse
      "localStorage returning_world"]
    hasRole_exact_match [of logged_in_world "''admin''"]
    hasRole_exact_match [of fresh_world "''admin''"]
  by (simp add: logged_in_world_user role_of_scenario_profile getUser_returning_world
        isAuthenticated_def fresh_world_def)

subsection \<open>C9: what a successful registration leaves\<close>

text \<open>
  \<^verbatim>\<open>register\<close> is invoked by the register view only, and only while \<^verbatim>\<open>loading\<close> is false:
  a submission while \<^verbatim>\<open>loading\<close> is true does nothing.
\<close>

lemma RegisterPage_submit_while_loading:
  "loading w \<Longrightarrow> RegisterPage_submit reply w = w"
  by (simp add: RegisterPage_submit_def)

lemma RegisterPage_submit_success:
  "\<not> loading w \<Longrightarrow>
     RegisterPage_submit (Inr newUser) w =
       (snd (register (Inr newUser) w))\<lparr>location_href := ''/login''\<rparr>"
  by (simp add: RegisterPage_submit_def register_def apiService_register_def)

text \<open>
  C9: a \<^verbatim>\<open>register\<close> invocation that succeeds leaves the session as it was: the current
  user is unchanged (no auto-login), the stored token and user entries are untouched,
  and \<^verbatim>\<open>loading\<close> is back at its prior value; only the network call and the
  notification have occurred. The invocations are those the register view can make,
  with \<^verbatim>\<open>loading\<close> false.
\<close>

theorem register_leaves_session:
  "\<not> loading w \<Longrightarrow> register (Inr newUser) w = (res, w') \<Longrightarrow>
     res = Inr () \<and> user w' = user w \<and> localStorage w' = localStorage w \<and>
     loading w' = loading w \<and>
     location_href w' = location_href w \<and>
     defaults_Authorization w' = defaults_Authorization w \<and>
     sent w' = sent w @ [request_interceptor (localStorage w)
       \<lparr>http_method = ''post'', url = ''/api/auth/register'',
        Authorization = defaults_Authorization w\<rparr>] \<and>
     toasts w' = toasts w @ [toast_success ''Registration successful! Please login.'']"
  by (auto simp add: register_def apiService_register_def)

theorem register_leaves_session_witness:
  "\<not> loading logged_in_world \<and>
   fst (register (Inr JNull :: exn + json) logged_in_world) = Inr () \<and>
   user (snd (register (Inr JNull :: exn + json) logged_in_world)) = user logged_in_world \<and>
   localStorage (snd (register (Inr JNull :: exn + json) logged_in_world)) =
     localStorage logged_in_world \<and>
   loading (snd (register (Inr JNull :: exn + json) logged_in_world)) =
     loading logged_in_world"
  using register_leaves_session [of logged_in_world JNull
      "fst (register (Inr JNull :: exn + json) logged_in_world)"
      "snd (register (Inr JNull :: exn + json) logged_in_world)"]
    logged_in_world_idle
  by simp

subsection \<open>C10: the user record after a login\<close>

text \<open>
  C10 (as stated): after a successful login, the user record that is persisted and
  exposed as current user is exactly the profile the current-user endpoint returned,
  an object with the members \<^verbatim>\<open>id\<close>, \<^verbatim>\<open>email\<close>, \<^verbatim>\<open>username\<close>, \<^verbatim>\<open>full_name\<close>, \<^verbatim>\<open>role\<close> and
  \<^verbatim>\<open>is_active\<close>, so that \<^verbatim>\<open>created_at\<close> is absent from the current user.

  \<^verbatim>\<open>UserProfile\<close> is only the declared type of the answer. \<^verbatim>\<open>login\<close> stores and exposes
  the body as it came: when the body carries \<^verbatim>\<open>created_at\<close> besides the six declared
  members, so does the current user.
\<close>

theorem login_exposes_created_at:
  "fst (login JSON_stringify (Inr scenario_response) (Inr dated_profile) idle_world) = Inr () \<and>
   get_prop (user (snd (login JSON_stringify (Inr scenario_response) (Inr dated_profile)
      idle_world))) ''created_at'' = Some (JStr ''2024-01-15T08:00:00'')"
  by (simp add: dated_profile_def login_def apiService_login_def
        apiService_getCurrentUser_def Let_def)

text \<open>
  C10 (amended): after a successful login, the user record that is persisted and
  exposed as current user is exactly the body the current-user endpoint answered with,
  unfiltered. When that body has the declared shape, with the six members \<^verbatim>\<open>id\<close>,
  \<^verbatim>\<open>email\<close>, \<^verbatim>\<open>username\<close>, \<^verbatim>\<open>full_name\<close>, \<^verbatim>\<open>role\<close> and \<^verbatim>\<open>is_active\<close> and no other, the
  current user has no \<^verbatim>\<open>created_at\<close>, \<^verbatim>\<open>phone\<close> or \<^verbatim>\<open>address\<close>.
\<close>

theorem login_exposes_the_body:
  "login stringify (Inr response) (Inr body) w = (res, w') \<Longrightarrow>
     res = Inr () \<and>
     user w' = body \<and>
     localStorage w' USER_KEY = Some (stringify body) \<and>
     getToken (localStorage w') = Some (access_token response) \<and>
     (body = UserProfile_json profile \<longrightarrow>
        object_keys (user w') =
          [''id'', ''email'', ''username'', ''full_name'', ''role'', ''is_active''] \<and>
        get_prop (user w') ''created_at'' = None \<and>
        get_prop (user w') ''phone'' = None \<and>
        get_prop (user w') ''address'' = None)"
  by (auto simp add: login_def apiService_login_def apiService_getCurrentUser_def Let_def
        setToken_def setUser_def getToken_def TOKEN_KEY_def USER_KEY_def
        UserProfile_json_def)

theorem login_exposes_the_body_witness:
  "user logged_in_world = UserProfile_json scenario_profile \<and>
   localStorage logged_in_world USER_KEY =
     Some (JSON_stringify (UserProfile_json scenario_profile)) \<and>
   getToken (localStorage logged_in_world) = Some ''tok123'' \<and>
   get_prop (user logged_in_world) ''role'' = Some (JStr ''baker'') \<and>
   get_prop (user logged_in_world) ''created_at'' = None"
proof -
  have run: "login JSON_stringify (Inr scenario_response)
        (Inr (UserProfile_json scenario_profile)) idle_world =
      (fst (login JSON_stringify (Inr scenario_response)
              (Inr (UserProfile_json scenario_profile)) idle_world),
       logged_in_world)"
    by (simp add: logged_in_world_def)
  from login_exposes_the_body [OF run, of scenario_profile] show ?thesis
    by (simp add: scenario_response_def scenario_profile_def UserProfile_json_def)
qed

end
